theory Spec2Isabelle
  imports Complex_Main
begin

section \<open>JavaScript values used by TimeInput.tsx\<close>

text \<open>
  Strings are lists of characters below U+0100. A JavaScript number is \<open>NaN\<close>, an
  infinity, or a finite double, given by its exact rational value; \<open>-0\<close> is not told
  from \<open>0\<close> (they compare, convert to a string and to a condition alike).
\<close>

datatype jsnum = NaN | Fin rat | PosInf | NegInf

fun negate :: "jsnum \<Rightarrow> jsnum" where
  "negate NaN = NaN"
| "negate (Fin x) = Fin (- x)"
| "negate PosInf = NegInf"
| "negate NegInf = PosInf"

definition isDigit :: "char \<Rightarrow> bool" where
  "isDigit c = (48 \<le> (of_char c :: nat) \<and> (of_char c :: nat) \<le> 57)"

definition digitValue :: "char \<Rightarrow> nat" where
  "digitValue c = (of_char c :: nat) - 48"

text \<open>White space and line terminators of the string-to-number grammar, below U+0100.\<close>

definition isWhiteSpace :: "char \<Rightarrow> bool" where
  "isWhiteSpace c = ((of_char c :: nat) \<in> {9, 10, 11, 12, 13, 32, 160})"

definition trim :: "string \<Rightarrow> string" where
  "trim s = rev (dropWhile isWhiteSpace (rev (dropWhile isWhiteSpace s)))"

subsection \<open>Rounding to a double\<close>

text \<open>The number of digits of \<open>n\<close> in base \<open>b\<close>.\<close>

function digitCount :: "nat \<Rightarrow> nat \<Rightarrow> nat" where
  "digitCount b n = (if n = 0 \<or> b < 2 then 0 else Suc (digitCount b (n div b)))"
  by pat_completeness auto
termination
  by (relation "measure snd") auto

declare digitCount.simps [simp del]

text \<open>The integer \<open>d\<close> with \<open>b ^ d \<le> x < b ^ (d + 1)\<close>, for a positive \<open>x\<close>.\<close>

definition floorLog :: "nat \<Rightarrow> rat \<Rightarrow> int" where
  "floorLog b x =
     (case quotient_of x of
        (p, q) \<Rightarrow>
          let d = int (digitCount b (nat p)) - int (digitCount b (nat q))
          in if of_nat b powi d \<le> x then d else d - 1)"

definition roundHalfEven :: "rat \<Rightarrow> int" where
  "roundHalfEven x =
     (let f = \<lfloor>x\<rfloor>; r = x - of_int f
      in if r < 1 / 2 then f else if 1 / 2 < r then f + 1 else if even f then f else f + 1)"

text \<open>
  The double nearest to a positive rational, ties to the even significand: 53 bits in
  the binade of \<open>a\<close>, the subnormal spacing \<open>2 ^ -1074\<close> below \<open>2 ^ -1022\<close>, and infinity
  from \<open>2 ^ 1024\<close> on.
\<close>

definition roundToDouble :: "rat \<Rightarrow> jsnum" where
  "roundToDouble a =
     (let q = max (floorLog 2 a) (- 1022) - 52;
          v = of_int (roundHalfEven (a / 2 powi q)) * 2 powi q
      in if 2 ^ 1024 \<le> v then PosInf else Fin v)"

definition isInteger :: "rat \<Rightarrow> bool" where
  "isInteger x = (of_int \<lfloor>x\<rfloor> = x)"

text \<open>
  The Number value of a rational. An integer of magnitude up to \<open>2 ^ 53\<close> is a double and
  is its own rounding, which the first case returns at once.
\<close>

definition toDouble :: "rat \<Rightarrow> jsnum" where
  "toDouble x =
     (if isInteger x \<and> \<bar>x\<bar> \<le> 2 ^ 53 then Fin x
      else if 0 < x then roundToDouble x
      else negate (roundToDouble (- x)))"

subsection \<open>Number to string\<close>

text \<open>
  \<open>String(n)\<close> of a natural number, which is also what a template literal inserts: its
  decimal digits, most significant first.
\<close>

fun toString :: "nat \<Rightarrow> string" where
  "toString n =
     (if n div 10 = 0 then [] else toString (n div 10)) @ [char_of (n mod 10 + 48)]"

declare toString.simps [simp del]

text \<open>
  \<open>Number::toString\<close> of a positive double \<open>x\<close> takes the least \<open>k\<close> for which some
  \<open>k\<close>-digit \<open>s\<close> and some \<open>n\<close> have \<open>s * 10 ^ (n - k)\<close> round to \<open>x\<close>, and the \<open>s\<close> nearest
  to \<open>x\<close> (the even one of two). For each \<open>k\<close> only the two \<open>k\<close>-digit decimals around \<open>x\<close>
  can qualify; 17 digits always do.
\<close>

definition candidates :: "rat \<Rightarrow> nat \<Rightarrow> (int \<times> nat) list" where
  "candidates x k =
     (let n = floorLog 10 x + 1;
          lo = nat \<lfloor>x / 10 powi (n - int k)\<rfloor>
      in [(n, lo), if Suc lo = 10 ^ k then (n + 1, 10 ^ (k - 1)) else (n, Suc lo)])"

definition candidateValue :: "nat \<Rightarrow> int \<times> nat \<Rightarrow> rat" where
  "candidateValue k c = (case c of (n, s) \<Rightarrow> of_nat s * 10 powi (n - int k))"

definition closest :: "rat \<Rightarrow> nat \<Rightarrow> (int \<times> nat) list \<Rightarrow> (int \<times> nat) option" where
  "closest x k cs =
     (case cs of
        [] \<Rightarrow> None
      | [c] \<Rightarrow> Some c
      | c # d # _ \<Rightarrow>
          let dc = \<bar>candidateValue k c - x\<bar>; dd = \<bar>candidateValue k d - x\<bar>
          in if dc < dd then Some c else if dd < dc then Some d
             else if even (snd c) then Some c else Some d)"

function shortestDigits :: "rat \<Rightarrow> nat \<Rightarrow> int \<times> nat \<times> nat" where
  "shortestDigits x k =
     (let cs = candidates x k
      in case closest x k (if 17 \<le> k then cs
                          else filter (\<lambda>c. toDouble (candidateValue k c) = Fin x) cs) of
           Some (n, s) \<Rightarrow> (n, k, s)
         | None \<Rightarrow> if 17 \<le> k then (0, k, 0) else shortestDigits x (Suc k))"
  by pat_completeness auto
termination
  by (relation "measure (\<lambda>(x, k). 17 - k)") auto

declare shortestDigits.simps [simp del]

text \<open>The notation chosen from \<open>n\<close>, \<open>k\<close> and the digits of \<open>s\<close>.\<close>

definition formatDigits :: "int \<Rightarrow> nat \<Rightarrow> nat \<Rightarrow> string" where
  "formatDigits n k s =
     (let digits = toString s
      in if int k \<le> n \<and> n \<le> 21 then digits @ replicate (nat (n - int k)) (CHR ''0'')
         else if 0 < n \<and> n \<le> 21 then take (nat n) digits @ ''.'' @ drop (nat n) digits
         else if - 6 < n \<and> n \<le> 0 then ''0.'' @ replicate (nat (- n)) (CHR ''0'') @ digits
         else (let e = n - 1;
                   es = (if e < 0 then ''-'' else ''+'') @ toString (nat \<bar>e\<bar>)
               in if k = 1 then digits @ ''e'' @ es
                  else take 1 digits @ ''.'' @ drop 1 digits @ ''e'' @ es))"

text \<open>
  An integer up to \<open>2 ^ 53\<close> is printed by its own digits: the doubles around it are at
  most 1 apart, so no shorter decimal rounds to it.
\<close>

definition positiveToString :: "rat \<Rightarrow> string" where
  "positiveToString x =
     (if isInteger x \<and> x \<le> 2 ^ 53 then toString (nat \<lfloor>x\<rfloor>)
      else (case shortestDigits x 1 of (n, k, s) \<Rightarrow> formatDigits n k s))"

text \<open>What a template literal inserts for a number.\<close>

definition string_of_jsnum :: "jsnum \<Rightarrow> string" where
  "string_of_jsnum n =
     (case n of
        NaN \<Rightarrow> ''NaN''
      | PosInf \<Rightarrow> ''Infinity''
      | NegInf \<Rightarrow> ''-Infinity''
      | Fin x \<Rightarrow>
          (case toDouble x of
             Fin y \<Rightarrow> if y = 0 then ''0''
                      else if y < 0 then ''-'' @ positiveToString (- y)
                      else positiveToString y
           | PosInf \<Rightarrow> ''Infinity''
           | NegInf \<Rightarrow> ''-Infinity''
           | NaN \<Rightarrow> ''NaN''))"

subsection \<open>String to number\<close>

text \<open>The text before the first character with \<open>P\<close>, and the text after it if there is one.\<close>

definition splitAt :: "(char \<Rightarrow> bool) \<Rightarrow> string \<Rightarrow> string \<times> string option" where
  "splitAt P s =
     (takeWhile (\<lambda>c. \<not> P c) s,
      case dropWhile (\<lambda>c. \<not> P c) s of [] \<Rightarrow> None | c # r \<Rightarrow> Some r)"

definition radixValue :: "nat \<Rightarrow> (char \<Rightarrow> nat) \<Rightarrow> string \<Rightarrow> nat" where
  "radixValue b val s = foldl (\<lambda>a c. b * a + val c) 0 s"

definition isDigits :: "string \<Rightarrow> bool" where
  "isDigits s = (s \<noteq> [] \<and> list_all isDigit s)"

text \<open>\<open>SignedInteger\<close>, the text after the exponent indicator.\<close>

definition signedInteger :: "string \<Rightarrow> int option" where
  "signedInteger s =
     (case s of
        [] \<Rightarrow> None
      | c # r \<Rightarrow>
          if c = CHR ''+'' then (if isDigits r then Some (int (radixValue 10 digitValue r)) else None)
          else if c = CHR ''-'' then
            (if isDigits r then Some (- int (radixValue 10 digitValue r)) else None)
          else if isDigits s then Some (int (radixValue 10 digitValue s)) else None)"

text \<open>
  \<open>StrUnsignedDecimalLiteral\<close>: \<open>Infinity\<close>, or digits with an optional point and an
  optional exponent part, at least one digit before or after the point.
\<close>

definition unsignedDecimal :: "string \<Rightarrow> jsnum" where
  "unsignedDecimal s =
     (if s = ''Infinity'' then PosInf
      else (case splitAt (\<lambda>c. c = CHR ''e'' \<or> c = CHR ''E'') s of
              (mantissa, exponentPart) \<Rightarrow>
                (case splitAt (\<lambda>c. c = CHR ''.'') mantissa of
                   (intPart, fractionPart) \<Rightarrow>
                     let fraction = (case fractionPart of None \<Rightarrow> [] | Some f \<Rightarrow> f);
                         wellFormed =
                           (list_all isDigit intPart \<and> list_all isDigit fraction
                            \<and> (intPart \<noteq> [] \<or> fraction \<noteq> []));
                         exponent =
                           (case exponentPart of None \<Rightarrow> Some 0 | Some t \<Rightarrow> signedInteger t)
                     in case exponent of
                          None \<Rightarrow> NaN
                        | Some e \<Rightarrow>
                            if wellFormed
                            then toDouble
                                   (of_nat (radixValue 10 digitValue (intPart @ fraction))
                                    * 10 powi (e - int (length fraction)))
                            else NaN)))"

definition strDecimal :: "string \<Rightarrow> jsnum" where
  "strDecimal s =
     (case s of
        [] \<Rightarrow> NaN
      | c # r \<Rightarrow>
          if c = CHR ''+'' then unsignedDecimal r
          else if c = CHR ''-'' then negate (unsignedDecimal r)
          else unsignedDecimal s)"

definition isHexDigit :: "char \<Rightarrow> bool" where
  "isHexDigit c =
     (let n = (of_char c :: nat)
      in (48 \<le> n \<and> n \<le> 57) \<or> (65 \<le> n \<and> n \<le> 70) \<or> (97 \<le> n \<and> n \<le> 102))"

definition hexValue :: "char \<Rightarrow> nat" where
  "hexValue c =
     (let n = (of_char c :: nat)
      in if 48 \<le> n \<and> n \<le> 57 then n - 48
         else if 65 \<le> n \<and> n \<le> 70 then n - 55
         else n - 87)"

text \<open>
  \<open>NonDecimalIntegerLiteral\<close>: \<open>0x\<close>, \<open>0o\<close> or \<open>0b\<close> (either case) and digits of that
  radix, without a sign. \<open>None\<close> when the text has no such prefix.
\<close>

definition nonDecimal :: "string \<Rightarrow> jsnum option" where
  "nonDecimal s =
     (case s of
        z # x # ds \<Rightarrow>
          if z \<noteq> CHR ''0'' then None
          else if x = CHR ''x'' \<or> x = CHR ''X'' then
            Some (if ds \<noteq> [] \<and> list_all isHexDigit ds
                  then toDouble (of_nat (radixValue 16 hexValue ds)) else NaN)
          else if x = CHR ''o'' \<or> x = CHR ''O'' then
            Some (if ds \<noteq> [] \<and> list_all (\<lambda>c. isDigit c \<and> digitValue c < 8) ds
                  then toDouble (of_nat (radixValue 8 digitValue ds)) else NaN)
          else if x = CHR ''b'' \<or> x = CHR ''B'' then
            Some (if ds \<noteq> [] \<and> list_all (\<lambda>c. isDigit c \<and> digitValue c < 2) ds
                  then toDouble (of_nat (radixValue 2 digitValue ds)) else NaN)
          else None
      | _ \<Rightarrow> None)"

text \<open>
  \<open>Number(s)\<close> on a string, after the \<open>StringNumericLiteral\<close> grammar: surrounding white
  space is dropped, the empty string is 0, and the literal is rounded to a double;
  everything else is \<open>NaN\<close>.
\<close>

definition Number :: "string \<Rightarrow> jsnum" where
  "Number s =
     (let t = trim s
      in if t = [] then Fin 0
         else (case nonDecimal t of Some n \<Rightarrow> n | None \<Rightarrow> strDecimal t))"

text \<open>\<open>!Number.isNaN(Number(key))\<close>\<close>

definition isNumber :: "string \<Rightarrow> bool" where
  "isNumber s = (Number s \<noteq> NaN)"

text \<open>Comparisons of numbers: every comparison with \<open>NaN\<close> is false.\<close>

fun js_lt :: "jsnum \<Rightarrow> jsnum \<Rightarrow> bool" where
  "js_lt (Fin x) (Fin y) = (x < y)"
| "js_lt (Fin x) PosInf = True"
| "js_lt NegInf (Fin y) = True"
| "js_lt NegInf PosInf = True"
| "js_lt _ _ = False"

definition js_gt :: "jsnum \<Rightarrow> jsnum \<Rightarrow> bool" where
  "js_gt a b = js_lt b a"

text \<open>The product, rounded; an infinity times 0 is \<open>NaN\<close>.\<close>

fun js_times :: "jsnum \<Rightarrow> jsnum \<Rightarrow> jsnum" where
  "js_times (Fin x) (Fin y) = toDouble (x * y)"
| "js_times NaN _ = NaN"
| "js_times _ NaN = NaN"
| "js_times (Fin x) PosInf = (if x = 0 then NaN else if 0 < x then PosInf else NegInf)"
| "js_times (Fin x) NegInf = (if x = 0 then NaN else if 0 < x then NegInf else PosInf)"
| "js_times PosInf (Fin y) = (if y = 0 then NaN else if 0 < y then PosInf else NegInf)"
| "js_times NegInf (Fin y) = (if y = 0 then NaN else if 0 < y then NegInf else PosInf)"
| "js_times PosInf PosInf = PosInf"
| "js_times PosInf NegInf = NegInf"
| "js_times NegInf PosInf = NegInf"
| "js_times NegInf NegInf = PosInf"

text \<open>
  A value stored in the \<open>values\<close> record of \<open>onChangeExternal\<close>: the string value of an
  element, or its \<open>valueAsNumber\<close>.
\<close>

datatype jsval = Str string | Numb jsnum

fun truthy :: "jsval \<Rightarrow> bool" where
  "truthy (Str s) = (s \<noteq> [])"
| "truthy (Numb n) = (n \<noteq> NaN \<and> n \<noteq> Fin 0)"

fun truthy_opt :: "jsval option \<Rightarrow> bool" where
  "truthy_opt None = False"
| "truthy_opt (Some v) = truthy v"

text \<open>An optional string (\<open>undefined\<close>, \<open>null\<close> or a string) used as a condition.\<close>

fun truthy_str :: "string option \<Rightarrow> bool" where
  "truthy_str None = False"
| "truthy_str (Some s) = (s \<noteq> [])"

fun NumberV :: "jsval \<Rightarrow> jsnum" where
  "NumberV (Str s) = Number s"
| "NumberV (Numb n) = n"

fun string_of_jsval :: "jsval \<Rightarrow> string" where
  "string_of_jsval (Str s) = s"
| "string_of_jsval (Numb n) = string_of_jsnum n"

section \<open>Hour convention converter\<close>

text \<open>
  Modelled from the spec: the module \<open>shared/dates.js\<close> with \<open>convert24to12\<close> and
  \<open>convert12to24\<close> is imported by TimeInput.tsx but is not among the sources. The spec
  (section 4.4) gives \<open>to12\<close> by four cases on 0..23 and \<open>to24\<close> as its inverse, which
  fails for an hour outside 1..12. Outside 0..23 the spec gives no value for \<open>to12\<close>;
  the last case is extended there.
\<close>

definition to12 :: "nat \<Rightarrow> nat \<times> string" where
  "to12 hour24 =
     (if hour24 = 0 then (12, ''am'')
      else if hour24 \<le> 11 then (hour24, ''am'')
      else if hour24 = 12 then (12, ''pm'')
      else (hour24 - 12, ''pm''))"

text \<open>
  Modelled from the spec: \<open>to24\<close>, the inverse of \<open>to12\<close> on hours 1..12 with a meridiem;
  \<open>None\<close> is the failure outside 1..12 (and for a meridiem that is neither am nor pm).
\<close>

definition to24 :: "nat \<Rightarrow> string \<Rightarrow> nat option" where
  "to24 hour12 meridiem =
     (if hour12 < 1 \<or> 12 < hour12 then None
      else if meridiem = ''am'' then Some (if hour12 = 12 then 0 else hour12)
      else if meridiem = ''pm'' then Some (if hour12 = 12 then 12 else hour12 + 12)
      else None)"

section \<open>Elements, component state and collaborators\<close>

text \<open>
  What the handlers read of a DOM element: \<open>name\<close>, \<open>type\<close>, \<open>value\<close>,
  \<open>validity.valid\<close>, the \<open>max\<close> attribute (\<open>None\<close> when it is not declared) and
  \<open>dataset.input === 'true'\<close>.
\<close>

record element =
  el_name :: string
  el_type :: string
  el_value :: string
  el_valid :: bool
  el_max :: "string option"
  el_internal :: bool

text \<open>An event target with its siblings, the nearest one first in both directions.\<close>

record target =
  prevSiblings :: "element list"
  elem :: element
  nextSiblings :: "element list"

text \<open>
  The state of the component that the keyboard and change handlers touch: the \<open>useState\<close>
  slots \<open>amPm\<close>, \<open>hour\<close>, \<open>minute\<close>, \<open>second\<close> (\<open>None\<close> is \<open>null\<close>) and the refs
  \<open>twoDigitHour\<close> and \<open>lastPressedKey\<close>.
\<close>

record state =
  amPm :: "string option"
  twoDigitHour :: string
  hour :: "string option"
  minute :: "string option"
  second :: "string option"
  lastPressedKey :: "string option"

datatype detail = DHour | DMinute | DSecond

text \<open>\<open>LooseValuePiece\<close>: a string, a \<open>Date\<close> object, or \<open>null\<close>/\<open>undefined\<close>.\<close>

datatype loose_value = VNull | VString string | VDate

text \<open>
  The props that reconciliation reads. A callback prop is recorded as present or absent;
  its calls are the notifications returned by the handlers.
\<close>

record props =
  onChangeProps :: bool
  onInvalidChange :: bool
  valueProps :: loose_value
  maxDetail :: detail

text \<open>
  The imported functions are parameters of the handlers: \<open>convert24to12\<close> and
  \<open>convert12to24\<close> of \<open>shared/dates.js\<close>, \<open>getHoursMinutes\<close> and
  \<open>getHoursMinutesSeconds\<close> of the date-utils library. \<open>convert12to24\<close> is called with
  a string in \<open>onChange\<close> and with an entry of \<open>values\<close> in \<open>onChangeExternal\<close>.
\<close>

record lib =
  convert24to12 :: "string \<Rightarrow> nat \<times> string"
  convert12to24 :: "jsval \<Rightarrow> jsval \<Rightarrow> jsnum"
  getHoursMinutes :: "string \<Rightarrow> string"
  getHoursMinutesSeconds :: "string \<Rightarrow> string"

datatype notification = OnChange "string option" bool | OnInvalidChange

section \<open>Keystroke router\<close>

definition acceptedFirstDigitsForHour :: "string list" where
  "acceptedFirstDigitsForHour = [''0'', ''1'', ''2'']"

definition isInternalInput :: "element \<Rightarrow> bool" where
  "isInternalInput e = el_internal e"

datatype property = previousElementSibling | nextElementSibling

text \<open>
  \<open>findInput\<close> walks the siblings in one direction and stops at the first internal input;
  \<open>None\<close> is the \<open>null\<close> it returns at the end of the row.
\<close>

definition findInput :: "target \<Rightarrow> property \<Rightarrow> element option" where
  "findInput t p =
     List.find isInternalInput
       (case p of previousElementSibling \<Rightarrow> prevSiblings t
                | nextElementSibling \<Rightarrow> nextSiblings t)"

text \<open>\<open>focus(element)\<close>: the element that receives focus, if any.\<close>

definition focus :: "element option \<Rightarrow> element option" where
  "focus e = e"

record effects =
  focused :: "element option"
  defaultPrevented :: bool

definition isHourName :: "string \<Rightarrow> bool" where
  "isHourName n = (n \<in> set [''hour12'', ''hour24''])"

definition onKeyDown ::
  "lib \<Rightarrow> string option \<Rightarrow> state \<Rightarrow> target \<Rightarrow> string \<Rightarrow> state \<times> effects" where
  "onKeyDown l divider st input key =
     (let st1 = st\<lparr>lastPressedKey := Some key\<rparr>;
          name = el_name (elem input);
          cur = twoDigitHour st1;
          st2 =
            (if isHourName name then
               (if isNumber key then
                  (if cur \<noteq> [] \<or> key \<in> set acceptedFirstDigitsForHour then
                     (if length cur < 2 then
                        (if cur \<noteq> ''2'' \<or> js_lt (Number key) (Fin 4)
                         then st1\<lparr>twoDigitHour := cur @ key\<rparr>
                         else st1)
                      else if name = ''hour12'' then
                        st1\<lparr>amPm := (if truthy_str (amPm st1) then amPm st1
                                      else Some (snd (convert24to12 l cur)))\<rparr>
                      else st1)
                   else st1)
                else if key = ''Backspace'' then st1\<lparr>twoDigitHour := butlast cur\<rparr>
                else st1)
             else st1)
      in (st2,
          if key = ''ArrowLeft'' \<or> key = ''ArrowRight'' \<or> Some key = divider then
            \<lparr>focused =
               focus (findInput input
                 (if key = ''ArrowLeft'' then previousElementSibling else nextElementSibling)),
             defaultPrevented = True\<rparr>
          else \<lparr>focused = None, defaultPrevented = False\<rparr>))"

text \<open>
  The condition under which \<open>onKeyUp\<close> moves on, once the key is known to be the last
  pressed one, numeric, and the field to declare \<open>max\<close> (here \<open>maxAttr\<close>).
\<close>

definition shouldAdvance :: "state \<Rightarrow> element \<Rightarrow> string \<Rightarrow> bool" where
  "shouldAdvance st input maxAttr =
     (if isHourName (el_name input)
      then twoDigitHour st = []
           \<or> length (twoDigitHour st) = 2
           \<or> js_gt (Number (twoDigitHour st)) (Number maxAttr)
           \<or> length (twoDigitHour st) \<ge> length maxAttr
      else js_gt (js_times (Number (el_value input)) (Fin 10)) (Number maxAttr)
           \<or> length (el_value input) \<ge> length maxAttr)"

definition onKeyUp :: "state \<Rightarrow> target \<Rightarrow> string \<Rightarrow> element option" where
  "onKeyUp st input key =
     (if lastPressedKey st \<noteq> Some key then None
      else if \<not> isNumber key then None
      else (case el_max (elem input) of
              None \<Rightarrow> None
            | Some maxAttr \<Rightarrow>
                if maxAttr = [] then None
                else if shouldAdvance st (elem input) maxAttr
                     then focus (findInput input nextElementSibling)
                     else None))"

text \<open>A row of key-down events, each with its target and key, from left to right.\<close>

fun keyDowns :: "lib \<Rightarrow> string option \<Rightarrow> state \<Rightarrow> (target \<times> string) list \<Rightarrow> state" where
  "keyDowns l divider st [] = st"
| "keyDowns l divider st ((input, key) # es) =
     keyDowns l divider (fst (onKeyDown l divider st input key)) es"

section \<open>Key values\<close>

text \<open>
  The \<open>key\<close> of a keyboard event is the character the key produces or the name of a
  named key (\<open>Backspace\<close>, \<open>ArrowLeft\<close>, \<open>Enter\<close>, ...). No key name is numeric, so
  a key for which \<open>Number(key)\<close> is a number is a single character.
\<close>

definition keyValue :: "string \<Rightarrow> bool" where
  "keyValue key = (length key = 1 \<or> \<not> isNumber key)"

text \<open>The shapes the accumulator takes: at most two characters, the first one 0, 1 or 2.\<close>

fun accOK :: "string \<Rightarrow> bool" where
  "accOK [] = True"
| "accOK [a] = (a \<in> set ''012'')"
| "accOK [a, b] = (a \<in> set ''012'' \<and> (isWhiteSpace b \<or> isDigit b \<and> (a = CHR ''2'' \<longrightarrow> digitValue b < 4)))"
| "accOK (a # b # c # cs) = False"

section \<open>Concrete configurations\<close>

text \<open>
  An instance of the imported functions, for the examples: the converters of the spec on
  the whole part of the parsed hour (0 where it does not parse, \<open>NaN\<close> where \<open>to24\<close>
  fails), and the two library functions on a zero-padded \<open>HH:MM:SS\<close> string.
\<close>

definition hourOf :: "jsnum \<Rightarrow> nat" where
  "hourOf n = (case n of Fin x \<Rightarrow> nat \<lfloor>x\<rfloor> | _ \<Rightarrow> 0)"

definition exampleLib :: lib where
  "exampleLib =
     \<lparr>convert24to12 = (\<lambda>s. to12 (hourOf (Number s))),
      convert12to24 =
        (\<lambda>h a. case to24 (hourOf (NumberV h)) (string_of_jsval a) of
                  Some n \<Rightarrow> Fin (of_nat n)
                | None \<Rightarrow> NaN),
      getHoursMinutes = take 5,
      getHoursMinutesSeconds = take 8\<rparr>"

definition numberInput :: "string \<Rightarrow> string \<Rightarrow> string \<Rightarrow> element" where
  "numberInput n v m =
     \<lparr>el_name = n, el_type = ''number'', el_value = v, el_valid = True,
      el_max = Some m, el_internal = True\<rparr>"

definition dividerSpan :: element where
  "dividerSpan =
     \<lparr>el_name = [], el_type = [], el_value = [], el_valid = True,
      el_max = None, el_internal = False\<rparr>"

definition emptyState :: state where
  "emptyState =
     \<lparr>amPm = None, twoDigitHour = [], hour = None, minute = None, second = None,
      lastPressedKey = None\<rparr>"

definition hourTarget :: "string \<Rightarrow> string \<Rightarrow> string \<Rightarrow> target" where
  "hourTarget n v m =
     \<lparr>prevSiblings = [], elem = numberInput n v m,
      nextSiblings = [dividerSpan, numberInput ''minute'' [] ''59'']\<rparr>"


section \<open>Value reconciler\<close>

text \<open>The refs to the rendered form elements; \<open>None\<close> is a ref whose \<open>current\<close> is null.\<close>

record refs =
  amPmInput :: "element option"
  hour12Input :: "element option"
  hour24Input :: "element option"
  minuteInput :: "element option"
  secondInput :: "element option"

text \<open>The list literal with its two conditional spreads, filtered by \<open>filterBoolean\<close>.\<close>

definition formElements :: "refs \<Rightarrow> string option \<Rightarrow> string option \<Rightarrow> element list" where
  "formElements r amPmOverride hourOverride =
     List.map_filter id
       ((if truthy_str amPmOverride then [] else [amPmInput r])
        @ (if truthy_str hourOverride then [] else [hour12Input r])
        @ [hour24Input r, minuteInput r, secondInput r])"

text \<open>\<open>formElements.slice(amPmOverride ? 0 : 1)\<close>\<close>

definition formElementsWithoutSelect ::
  "refs \<Rightarrow> string option \<Rightarrow> string option \<Rightarrow> element list" where
  "formElementsWithoutSelect r amPmOverride hourOverride =
     drop (if truthy_str amPmOverride then 0 else 1) (formElements r amPmOverride hourOverride)"

text \<open>
  A valid floating-point number of HTML: an optional minus sign, digits with an optional
  fraction of at least one digit (or the fraction alone), and an optional exponent.
\<close>

definition validFloat :: "string \<Rightarrow> bool" where
  "validFloat s =
     (case splitAt (\<lambda>c. c = CHR ''e'' \<or> c = CHR ''E'')
             (case s of [] \<Rightarrow> [] | c # r \<Rightarrow> if c = CHR ''-'' then r else s) of
        (mantissa, exponentPart) \<Rightarrow>
          (case splitAt (\<lambda>c. c = CHR ''.'') mantissa of
             (intPart, fractionPart) \<Rightarrow>
               list_all isDigit intPart
               \<and> (case fractionPart of None \<Rightarrow> intPart \<noteq> [] | Some f \<Rightarrow> isDigits f)
               \<and> (case exponentPart of None \<Rightarrow> True | Some t \<Rightarrow> signedInteger t \<noteq> None)))"

text \<open>
  \<open>valueAsNumber\<close> of a number input: the number of its value, which the browser keeps
  either empty or a valid floating-point number; \<open>NaN\<close> for the empty input.
\<close>

definition valueAsNumber :: "element \<Rightarrow> jsnum" where
  "valueAsNumber e = (if validFloat (el_value e) then Number (el_value e) else NaN)"

definition valuesOf :: "element list \<Rightarrow> (string \<rightharpoonup> jsval)" where
  "valuesOf es =
     foldl (\<lambda>values formElement.
              values(el_name formElement \<mapsto>
                (if el_type formElement = ''number'' then Numb (valueAsNumber formElement)
                 else Str (el_value formElement))))
       Map.empty es"

definition isEveryValueEmpty :: "refs \<Rightarrow> string option \<Rightarrow> string option \<Rightarrow> bool" where
  "isEveryValueEmpty r amPmOverride hourOverride =
     list_all (\<lambda>formElement. el_value formElement = [])
       (formElementsWithoutSelect r amPmOverride hourOverride)"

definition isEveryValueFilled :: "refs \<Rightarrow> string option \<Rightarrow> string option \<Rightarrow> bool" where
  "isEveryValueFilled r amPmOverride hourOverride =
     list_all (\<lambda>formElement. el_value formElement \<noteq> [])
       (formElements r amPmOverride hourOverride)"

definition isEveryValueValid :: "refs \<Rightarrow> string option \<Rightarrow> string option \<Rightarrow> bool" where
  "isEveryValueValid r amPmOverride hourOverride =
     list_all el_valid (formElements r amPmOverride hourOverride)"

text \<open>
  \<open>amPmOverride || (!values.amPm && Number(twoDigitHour.current) > 12 ? 'pm' : values.amPm)\<close>,
  with \<open>None\<close> for \<open>undefined\<close>.
\<close>

definition amPmValue :: "string option \<Rightarrow> jsval option \<Rightarrow> string \<Rightarrow> jsval option" where
  "amPmValue amPmOverride valuesAmPm acc =
     (if truthy_str amPmOverride then map_option Str amPmOverride
      else if \<not> truthy_opt valuesAmPm \<and> js_gt (Number acc) (Fin 12) then Some (Str ''pm'')
      else valuesAmPm)"

text \<open>\<open>`0${num}`.slice(-2)\<close> on the text that the template inserts for \<open>num\<close>.\<close>

definition padStart :: "string \<Rightarrow> string" where
  "padStart num = (let t = ''0'' @ num in drop (length t - 2) t)"

definition getProcessedValue :: "lib \<Rightarrow> props \<Rightarrow> string \<Rightarrow> string" where
  "getProcessedValue l p v =
     (case maxDetail p of
        DHour \<Rightarrow> getHoursMinutes l v
      | DMinute \<Rightarrow> getHoursMinutes l v
      | DSecond \<Rightarrow> getHoursMinutesSeconds l v)"

text \<open>\<open>Number(values[k] || 0)\<close>\<close>

definition numberOrZero :: "jsval option \<Rightarrow> jsnum" where
  "numberOrZero v = (case v of Some x \<Rightarrow> if truthy x then NumberV x else Fin 0 | None \<Rightarrow> Fin 0)"

text \<open>
  The number of \<open>(values.hour12 && amPmValue && convert12to24(values.hour12, amPmValue)) || 0\<close>.
\<close>

definition hour12Number :: "lib \<Rightarrow> (string \<rightharpoonup> jsval) \<Rightarrow> jsval option \<Rightarrow> jsnum" where
  "hour12Number l values amPmV =
     (case (values ''hour12'', amPmV) of
        (Some h12, Some a) \<Rightarrow>
          if truthy h12 \<and> truthy a \<and> truthy (Numb (convert12to24 l h12 a))
          then convert12to24 l h12 a else Fin 0
      | _ \<Rightarrow> Fin 0)"

text \<open>The text of \<open>hour\<close>: \<open>hourOverride || Number(values.hour24 || ... || 0)\<close>.\<close>

definition hourText ::
  "lib \<Rightarrow> (string \<rightharpoonup> jsval) \<Rightarrow> jsval option \<Rightarrow> string option \<Rightarrow> string" where
  "hourText l values amPmV hourOverride =
     (if truthy_str hourOverride then (case hourOverride of Some h \<Rightarrow> h | None \<Rightarrow> [])
      else string_of_jsnum
             (case values ''hour24'' of
                Some h24 \<Rightarrow> if truthy h24 then NumberV h24 else hour12Number l values amPmV
              | None \<Rightarrow> hour12Number l values amPmV))"

definition proposedValue ::
  "lib \<Rightarrow> refs \<Rightarrow> string \<Rightarrow> string option \<Rightarrow> string option \<Rightarrow> string" where
  "proposedValue l r acc amPmOverride hourOverride =
     (let values = valuesOf (formElements r amPmOverride hourOverride);
          amPmV = amPmValue amPmOverride (values ''amPm'') acc;
          hour = hourText l values amPmV hourOverride;
          minute = numberOrZero (values ''minute'');
          second = numberOrZero (values ''second'')
      in padStart hour @ '':'' @ padStart (string_of_jsnum minute) @ '':''
         @ padStart (string_of_jsnum second))"

definition onChangeExternal ::
  "lib \<Rightarrow> props \<Rightarrow> refs \<Rightarrow> string \<Rightarrow> string option \<Rightarrow> string option \<Rightarrow> notification list"
  where
  "onChangeExternal l p r acc amPmOverride hourOverride =
     (if \<not> onChangeProps p then []
      else if isEveryValueEmpty r amPmOverride hourOverride then [OnChange None False]
      else if isEveryValueFilled r amPmOverride hourOverride
              \<and> isEveryValueValid r amPmOverride hourOverride then
        (let processedValue =
               getProcessedValue l p (proposedValue l r acc amPmOverride hourOverride)
         in if VString processedValue = valueProps p then []
            else [OnChange (Some processedValue) False])
      else if \<not> onInvalidChange p then []
      else [OnInvalidChange])"

text \<open>
  \<open>onChange\<close> of a custom input: \<open>name\<close> and \<open>value\<close> are those of the event target, and
  \<open>r\<close> is the form as the handler finds it.
\<close>

definition onChange ::
  "lib \<Rightarrow> props \<Rightarrow> refs \<Rightarrow> state \<Rightarrow> string \<Rightarrow> string \<Rightarrow> state \<times> notification list" where
  "onChange l p r st name v =
     (let st' =
            (if name = ''amPm'' then st\<lparr>amPm := Some v\<rparr>
             else if name = ''hour12'' then
               (if js_gt (Number v) (Fin 23) then st
                else st\<lparr>hour := Some
                       (if v \<noteq> [] then
                          (if twoDigitHour st \<in> set acceptedFirstDigitsForHour then v
                           else string_of_jsnum
                                  (convert12to24 l (Str v)
                                     (Str (case amPm st of
                                             Some a \<Rightarrow> if a \<noteq> [] then a
                                                       else if v = ''12'' then ''pm'' else ''am''
                                           | None \<Rightarrow> if v = ''12'' then ''pm'' else ''am''))))
                        else [])\<rparr>)
             else if name = ''hour24'' then
               (if js_gt (Number v) (Fin 23) then st else st\<lparr>hour := Some v\<rparr>)
             else if name = ''minute'' then st\<lparr>minute := Some v\<rparr>
             else if name = ''second'' then st\<lparr>second := Some v\<rparr>
             else st)
      in (st', onChangeExternal l p r (twoDigitHour st) None None))"

text \<open>
  A change event as the browser delivers it: the target, found by its name, has its new
  value and validity before the handler runs. The form keeps what was typed, which is
  what the widgets show again whenever \<open>onChange\<close> stores the value.
\<close>

definition setElement :: "string \<Rightarrow> string \<Rightarrow> bool \<Rightarrow> element option \<Rightarrow> element option" where
  "setElement name v ok e =
     map_option (\<lambda>x. if el_name x = name then x\<lparr>el_value := v, el_valid := ok\<rparr> else x) e"

definition setValue :: "refs \<Rightarrow> string \<Rightarrow> string \<Rightarrow> bool \<Rightarrow> refs" where
  "setValue r name v ok =
     \<lparr>amPmInput = setElement name v ok (amPmInput r),
      hour12Input = setElement name v ok (hour12Input r),
      hour24Input = setElement name v ok (hour24Input r),
      minuteInput = setElement name v ok (minuteInput r),
      secondInput = setElement name v ok (secondInput r)\<rparr>"

fun fireChanges ::
  "lib \<Rightarrow> props \<Rightarrow> state \<Rightarrow> refs \<Rightarrow> (string \<times> string \<times> bool) list \<Rightarrow> notification list" where
  "fireChanges l p st r [] = []"
| "fireChanges l p st r ((name, v, ok) # es) =
     (let r' = setValue r name v ok;
          (st', ns) = onChange l p r' st name v
      in ns @ fireChanges l p st' r' es)"


text \<open>
  The rendered forms of the tests: value 22:17:03 at granularity second, in the 12-hour
  layout (meridiem selector, hour12, minute, second) and in the 24-hour layout (hour24,
  minute, second; no selector is rendered).
\<close>

definition amPmSelect :: "string \<Rightarrow> element" where
  "amPmSelect v =
     \<lparr>el_name = ''amPm'', el_type = ''select-one'', el_value = v, el_valid = True,
      el_max = None, el_internal = True\<rparr>"

definition form12 :: refs where
  "form12 =
     \<lparr>amPmInput = Some (amPmSelect ''pm''),
      hour12Input = Some (numberInput ''hour12'' ''10'' ''12''),
      hour24Input = None,
      minuteInput = Some (numberInput ''minute'' ''17'' ''59''),
      secondInput = Some (numberInput ''second'' ''3'' ''59'')\<rparr>"

definition form24 :: refs where
  "form24 =
     \<lparr>amPmInput = None,
      hour12Input = None,
      hour24Input = Some (numberInput ''hour24'' ''22'' ''23''),
      minuteInput = Some (numberInput ''minute'' ''17'' ''59''),
      secondInput = Some (numberInput ''second'' ''3'' ''59'')\<rparr>"

definition shownState :: state where
  "shownState =
     \<lparr>amPm = Some ''pm'', twoDigitHour = [], hour = Some ''22'', minute = Some ''17'',
      second = Some ''3'', lastPressedKey = None\<rparr>"

definition testProps :: props where
  "testProps =
     \<lparr>onChangeProps = True, onInvalidChange = False, valueProps = VString ''22:17:03'',
      maxDetail = DSecond\<rparr>"

text \<open>The props of a picker at granularity minute whose value is midnight.\<close>

definition midnightProps :: props where
  "midnightProps =
     \<lparr>onChangeProps = True, onInvalidChange = False, valueProps = VString ''00:00'',
      maxDetail = DMinute\<rparr>"


definition formA :: "string \<Rightarrow> refs" where
  "formA v =
     \<lparr>amPmInput = Some (amPmSelect v), hour12Input = None, hour24Input = None,
      minuteInput = None, secondInput = None\<rparr>"

definition emptyForm12 :: refs where
  "emptyForm12 =
     \<lparr>amPmInput = Some (amPmSelect ''am''),
      hour12Input = Some (numberInput ''hour12'' [] ''12''),
      hour24Input = None,
      minuteInput = Some (numberInput ''minute'' [] ''59''),
      secondInput = None\<rparr>"


section \<open>Format tokenizer and render plan\<close>

text \<open>
  What \<open>renderCustomInputs\<close> puts into its array: a \<open>Divider\<close> around a non-empty piece of
  literal text, the empty piece itself, a token left as text, or one of the five inputs
  with the props computed from the token (\<open>showLeadingZeros\<close>, and \<open>autoFocus\<close>, which is
  \<open>index === 0 && autoFocus\<close>).
\<close>

datatype node =
    Divider string
  | EmptyPiece
  | TokenText string
  | Hour12Input bool bool
  | Hour24Input bool bool
  | MinuteInput bool bool
  | SecondInput bool bool
  | AmPm bool

text \<open>The \<open>Error\<close> thrown by the render functions, with its message.\<close>

datatype error = Error string

datatype render_fn = renderHour | renderMinute | renderSecond | renderAmPm

definition elementFunctions :: "(char \<times> render_fn) list" where
  "elementFunctions =
     [(CHR ''h'', renderHour), (CHR ''H'', renderHour), (CHR ''m'', renderMinute),
      (CHR ''s'', renderSecond), (CHR ''a'', renderAmPm)]"

definition unsupported :: "string \<Rightarrow> error" where
  "unsupported currentMatch = Error (''Unsupported token: '' @ currentMatch)"

definition renderHour12F :: "bool \<Rightarrow> string \<Rightarrow> nat \<Rightarrow> error + node" where
  "renderHour12F autoFocus currentMatch index =
     (if currentMatch \<noteq> [] \<and> length currentMatch > 2 then Inl (unsupported currentMatch)
      else Inr (Hour12Input (if currentMatch \<noteq> [] then length currentMatch = 2 else False)
                  (index = 0 \<and> autoFocus)))"

definition renderHour24F :: "bool \<Rightarrow> string \<Rightarrow> nat \<Rightarrow> error + node" where
  "renderHour24F autoFocus currentMatch index =
     (if currentMatch \<noteq> [] \<and> length currentMatch > 2 then Inl (unsupported currentMatch)
      else Inr (Hour24Input (if currentMatch \<noteq> [] then length currentMatch = 2 else False)
                  (index = 0 \<and> autoFocus)))"

definition renderHourF :: "bool \<Rightarrow> string \<Rightarrow> nat \<Rightarrow> error + node" where
  "renderHourF autoFocus currentMatch index =
     (if CHR ''h'' \<in> set currentMatch then renderHour12F autoFocus currentMatch index
      else renderHour24F autoFocus currentMatch index)"

definition renderMinuteF :: "bool \<Rightarrow> string \<Rightarrow> nat \<Rightarrow> error + node" where
  "renderMinuteF autoFocus currentMatch index =
     (if currentMatch \<noteq> [] \<and> length currentMatch > 2 then Inl (unsupported currentMatch)
      else Inr (MinuteInput (if currentMatch \<noteq> [] then length currentMatch = 2 else False)
                  (index = 0 \<and> autoFocus)))"

definition renderSecondF :: "bool \<Rightarrow> string \<Rightarrow> nat \<Rightarrow> error + node" where
  "renderSecondF autoFocus currentMatch index =
     (if currentMatch \<noteq> [] \<and> length currentMatch > 2 then Inl (unsupported currentMatch)
      else Inr (SecondInput (if currentMatch \<noteq> [] then length currentMatch = 2 else True)
                  (index = 0 \<and> autoFocus)))"

definition renderAmPmF :: "bool \<Rightarrow> string \<Rightarrow> nat \<Rightarrow> error + node" where
  "renderAmPmF autoFocus currentMatch index = Inr (AmPm (index = 0 \<and> autoFocus))"

fun callRender :: "render_fn \<Rightarrow> bool \<Rightarrow> string \<Rightarrow> nat \<Rightarrow> error + node" where
  "callRender renderHour = renderHourF"
| "callRender renderMinute = renderMinuteF"
| "callRender renderSecond = renderSecondF"
| "callRender renderAmPm = renderAmPmF"

text \<open>
  The pattern \<open>h+|H+|m+|s+|a+\<close> matches, from left to right, every maximal run of one key
  letter. \<open>splitMatches\<close> gives each match with the literal piece before it, and the last
  piece: \<open>placeholder.split(pattern)\<close> and \<open>placeholder.match(pattern)\<close> side by side.
\<close>

function splitMatches :: "string \<Rightarrow> string \<Rightarrow> (string \<times> string) list \<times> string" where
  "splitMatches piece [] = ([], piece)"
| "splitMatches piece (c # cs) =
     (if c \<in> set (map fst elementFunctions)
      then (case splitMatches [] (dropWhile (\<lambda>d. d = c) cs) of
              (ps, lastPiece) \<Rightarrow> ((piece, c # takeWhile (\<lambda>d. d = c) cs) # ps, lastPiece))
      else splitMatches (piece @ [c]) cs)"
  by pat_completeness auto
termination
  by (relation "measure (\<lambda>(piece, s). length s)")
     (auto simp: length_dropWhile_le less_Suc_eq_le)

text \<open>
  \<open>elementFunctions[currentMatch] || elementFunctions[keys.find((k) => currentMatch.match(k))]\<close>:
  the entry whose key is the whole match, else the first key that occurs in the match.
\<close>

definition lookupRender :: "string \<Rightarrow> render_fn option" where
  "lookupRender currentMatch =
     (case List.find (\<lambda>(k, f). currentMatch = [k]) elementFunctions of
        Some (k, f) \<Rightarrow> Some f
      | None \<Rightarrow>
          (case List.find (\<lambda>(k, f). k \<in> set currentMatch) elementFunctions of
             Some (k, f) \<Rightarrow> Some f
           | None \<Rightarrow> None))"

definition dividerOf :: "string \<Rightarrow> node" where
  "dividerOf element = (if element = [] then EmptyPiece else Divider element)"

text \<open>The \<open>reduce\<close> over the pieces, with the index, \<open>usedFunctions\<close> and the array so far.\<close>

fun renderLoop ::
  "bool \<Rightarrow> bool \<Rightarrow> nat \<Rightarrow> render_fn list \<Rightarrow> node list \<Rightarrow> (string \<times> string) list \<Rightarrow> string
     \<Rightarrow> error + node list" where
  "renderLoop autoFocus allowMultipleInstances index usedFunctions arr [] lastPiece =
     Inr (arr @ [dividerOf lastPiece])"
| "renderLoop autoFocus allowMultipleInstances index usedFunctions arr
     ((element, currentMatch) # ps) lastPiece =
     (let arr1 = arr @ [dividerOf element]
      in case lookupRender currentMatch of
           None \<Rightarrow>
             renderLoop autoFocus allowMultipleInstances (Suc index) usedFunctions arr1 ps lastPiece
         | Some renderFunction \<Rightarrow>
             if \<not> allowMultipleInstances \<and> renderFunction \<in> set usedFunctions then
               renderLoop autoFocus allowMultipleInstances (Suc index) usedFunctions
                 (arr1 @ [TokenText currentMatch]) ps lastPiece
             else
               (case callRender renderFunction autoFocus currentMatch index of
                  Inl e \<Rightarrow> Inl e
                | Inr n \<Rightarrow>
                    renderLoop autoFocus allowMultipleInstances (Suc index)
                      (usedFunctions @ [renderFunction]) (arr1 @ [n]) ps lastPiece))"

definition renderCustomInputs :: "string \<Rightarrow> bool \<Rightarrow> bool \<Rightarrow> error + node list" where
  "renderCustomInputs placeholder autoFocus allowMultipleInstances =
     (case splitMatches [] placeholder of
        (ps, lastPiece) \<Rightarrow> renderLoop autoFocus allowMultipleInstances 0 [] [] ps lastPiece)"

text \<open>
  \<open>renderCustomInputsInternal\<close>: the placeholder is \<open>format\<close> when that is given and not
  empty, else the placeholder derived from the locale (\<open>derived\<close>, computed by the locale
  formatter); \<open>allowMultipleInstances\<close> is \<open>typeof format !== 'undefined'\<close>.
\<close>

definition renderCustomInputsInternal ::
  "string option \<Rightarrow> string \<Rightarrow> bool \<Rightarrow> error + node list" where
  "renderCustomInputsInternal format derived autoFocus =
     renderCustomInputs
       (case format of Some f \<Rightarrow> if f \<noteq> [] then f else derived | None \<Rightarrow> derived)
       autoFocus (format \<noteq> None)"

text \<open>A run of more than two copies of one numeric field letter.\<close>

definition longRun :: "string \<Rightarrow> bool" where
  "longRun t =
     (case t of
        [] \<Rightarrow> False
      | d # ds \<Rightarrow> d \<in> set ''hHms'' \<and> 2 < length t \<and> list_all (\<lambda>x. x = d) ds)"


section \<open>Properties\<close>

text \<open>
  C5. For every hour24 in 0..23, \<open>to12\<close> maps 0 to (12, am), 1..11 to (h, am), 12 to
  (12, pm) and 13..23 to (h - 12, pm), and converting the resulting pair back with \<open>to24\<close>
  returns the original hour24.
\<close>

theorem to12_to24_roundtrip:
  "hour24 < 24 \<Longrightarrow>
     (hour24 = 0 \<longrightarrow> to12 hour24 = (12, ''am'')) \<and>
     (1 \<le> hour24 \<and> hour24 \<le> 11 \<longrightarrow> to12 hour24 = (hour24, ''am'')) \<and>
     (hour24 = 12 \<longrightarrow> to12 hour24 = (12, ''pm'')) \<and>
     (13 \<le> hour24 \<longrightarrow> to12 hour24 = (hour24 - 12, ''pm'')) \<and>
     to24 (fst (to12 hour24)) (snd (to12 hour24)) = Some hour24"
  by (auto simp: to12_def to24_def)

theorem to12_to24_roundtrip_witness:
  "(13::nat) < 24 \<and> to12 13 = (1, ''pm'') \<and> to24 (fst (to12 13)) (snd (to12 13)) = Some 13"
  using to12_to24_roundtrip [of 13] by auto

subsection \<open>Parsing keys and accumulators\<close>

lemma digit_not_ws: "isDigit c \<Longrightarrow> \<not> isWhiteSpace c"
  by (auto simp: isDigit_def isWhiteSpace_def)

lemma toDouble_nat: "n \<le> 2 ^ 53 \<Longrightarrow> toDouble (of_nat n) = Fin (of_nat n)"
proof -
  assume "n \<le> 2 ^ 53"
  then have "(of_nat n :: rat) \<le> of_nat (2 ^ 53)" by (simp only: of_nat_le_iff)
  then show ?thesis by (simp add: toDouble_def isInteger_def)
qed

lemma trim_no_ws: "\<not> isWhiteSpace c \<Longrightarrow> \<not> isWhiteSpace d \<Longrightarrow> trim (c # cs @ [d]) = c # cs @ [d]"
  by (simp add: trim_def)

lemma special_not_digit:
  "isDigit c \<Longrightarrow> c \<noteq> CHR ''+'' \<and> c \<noteq> CHR ''-'' \<and> c \<noteq> CHR ''.'' \<and> c \<noteq> CHR ''e'' \<and> c \<noteq> CHR ''E''
     \<and> c \<noteq> CHR ''x'' \<and> c \<noteq> CHR ''X'' \<and> c \<noteq> CHR ''o'' \<and> c \<noteq> CHR ''O'' \<and> c \<noteq> CHR ''b'' \<and> c \<noteq> CHR ''B''"
  by (auto simp: isDigit_def)

lemma digitValue_le: "isDigit c \<Longrightarrow> digitValue c \<le> 9"
  by (auto simp: isDigit_def digitValue_def)

lemma unsignedDecimal_single:
  "unsignedDecimal [c] = (if isDigit c then Fin (of_nat (digitValue c)) else NaN)"
proof (cases "isDigit c")
  case True
  then have "digitValue c \<le> 2 ^ 53" using digitValue_le [of c] by simp
  with True show ?thesis
    using special_not_digit [of c]
    by (simp add: unsignedDecimal_def splitAt_def radixValue_def toDouble_nat)
next
  case False
  then show ?thesis
    by (auto simp: unsignedDecimal_def splitAt_def signedInteger_def split: option.splits)
qed

lemma Number_single:
  "Number [c] = (if isWhiteSpace c then Fin 0 else if isDigit c then Fin (of_nat (digitValue c)) else NaN)"
proof (cases "isWhiteSpace c")
  case True
  then show ?thesis by (simp add: Number_def trim_def)
next
  case False
  have "unsignedDecimal [] = NaN"
    by (simp add: unsignedDecimal_def splitAt_def)
  with False show ?thesis
    using special_not_digit [of c]
    by (auto simp: Number_def trim_def nonDecimal_def strDecimal_def unsignedDecimal_single)
qed

lemma unsignedDecimal_pair:
  assumes "isDigit a" and "isDigit b"
  shows "unsignedDecimal [a, b] = Fin (of_nat (10 * digitValue a + digitValue b))"
proof -
  have "10 * digitValue a + digitValue b \<le> 2 ^ 53"
    using digitValue_le [OF assms(1)] digitValue_le [OF assms(2)] by simp
  then show ?thesis
    using assms special_not_digit [of a] special_not_digit [of b]
    by (simp add: unsignedDecimal_def splitAt_def radixValue_def toDouble_nat del: of_nat_add of_nat_mult)
qed

lemma Number_pair_digits:
  assumes "isDigit a" and "isDigit b"
  shows "Number [a, b] = Fin (of_nat (10 * digitValue a + digitValue b))"
proof -
  have "nonDecimal [a, b] = None"
    using special_not_digit [OF assms(2)] by (simp add: nonDecimal_def)
  moreover have "strDecimal [a, b] = unsignedDecimal [a, b]"
    using special_not_digit [OF assms(1)] by (simp add: strDecimal_def)
  moreover have "trim [a, b] = [a, b]"
    using assms by (simp add: trim_def digit_not_ws)
  ultimately show ?thesis
    by (simp add: Number_def unsignedDecimal_pair [OF assms] del: of_nat_add of_nat_mult)
qed

lemma Number_pair_ws:
  assumes "isDigit a" and "isWhiteSpace b"
  shows "Number [a, b] = Fin (of_nat (digitValue a))"
proof -
  have "trim [a, b] = [a]"
    using assms by (simp add: trim_def digit_not_ws)
  moreover have "Number [a] = Fin (of_nat (digitValue a))"
    using assms(1) by (simp add: Number_single digit_not_ws)
  moreover have "trim [a] = [a]"
    using assms(1) by (simp add: trim_def digit_not_ws)
  ultimately show ?thesis by (simp add: Number_def)
qed

lemma Number_empty: "Number [] = Fin 0"
  by (simp add: Number_def trim_def)

lemma Number_values:
  "Number ''1'' = Fin 1" "Number ''2'' = Fin 2" "Number ''4'' = Fin 4"
  "Number ''08'' = Fin 8" "Number ''12'' = Fin 12" "Number ''13'' = Fin 13"
  "Number ''24'' = Fin 24"
  by (simp_all add: Number_single Number_pair_digits isDigit_def isWhiteSpace_def digitValue_def)

lemma first_digit: "a \<in> set ''012'' \<Longrightarrow> isDigit a \<and> digitValue a \<le> 2 \<and> (a \<noteq> CHR ''2'' \<longrightarrow> digitValue a \<le> 1)"
  by (auto simp: isDigit_def digitValue_def)

lemma accOK_bound: "accOK acc \<Longrightarrow> length acc \<le> 2 \<and> js_lt (Number acc) (Fin 24)"
proof (cases acc rule: accOK.cases)
  case 1
  then show ?thesis by (simp add: Number_empty)
next
  case (2 a)
  assume "accOK acc"
  with 2 have "isDigit a" "digitValue a \<le> 2" using first_digit by auto
  with 2 show ?thesis by (simp add: Number_single digit_not_ws)
next
  case (3 a b)
  assume ok: "accOK acc"
  with 3 have a: "isDigit a" "digitValue a \<le> 2" "a \<noteq> CHR ''2'' \<longrightarrow> digitValue a \<le> 1"
    using first_digit by auto
  show ?thesis
  proof (cases "isWhiteSpace b")
    case True
    with 3 a show ?thesis by (simp add: Number_pair_ws)
  next
    case False
    with ok 3 have b: "isDigit b" "a = CHR ''2'' \<longrightarrow> digitValue b < 4" by auto
    from b(1) have "digitValue b \<le> 9" by (rule digitValue_le)
    with 3 a b show ?thesis by (cases "a = CHR ''2''") (auto simp: Number_pair_digits)
  qed
next
  case (4 a b c cs)
  assume "accOK acc"
  with 4 show ?thesis by simp
qed

lemma numeric_key: "keyValue key \<Longrightarrow> isNumber key \<Longrightarrow> \<exists>c. key = [c] \<and> (isWhiteSpace c \<or> isDigit c)"
  by (cases key) (auto simp: keyValue_def isNumber_def Number_single split: if_splits)

lemma accOK_butlast: "accOK acc \<Longrightarrow> accOK (butlast acc)"
  by (cases acc rule: accOK.cases) auto

lemma accOK_append:
  assumes "accOK cur" and "length cur < 2" and "isWhiteSpace c \<or> isDigit c"
    and "cur \<noteq> [] \<or> [c] \<in> set acceptedFirstDigitsForHour"
    and "cur \<noteq> ''2'' \<or> js_lt (Number [c]) (Fin 4)"
  shows "accOK (cur @ [c])"
proof (cases cur rule: accOK.cases)
  case 1
  with assms(4) show ?thesis by (auto simp: acceptedFirstDigitsForHour_def)
next
  case (2 a)
  with assms show ?thesis
    by (auto simp: Number_single digit_not_ws split: if_splits)
next
  case (3 a b)
  with assms(2) show ?thesis by simp
next
  case (4 a b c cs)
  with assms(2) show ?thesis by simp
qed

lemma onKeyDown_accOK:
  assumes "accOK (twoDigitHour st)" and "keyValue key"
  shows "accOK (twoDigitHour (fst (onKeyDown l divider st input key)))"
proof (cases "isNumber key")
  case True
  with assms(2) obtain c where c: "key = [c]" "isWhiteSpace c \<or> isDigit c"
    using numeric_key by blast
  with assms(1) show ?thesis
    by (auto simp: onKeyDown_def Let_def intro!: accOK_append)
next
  case False
  with assms(1) show ?thesis
    by (auto simp: onKeyDown_def Let_def accOK_butlast)
qed

lemma keyDowns_accOK:
  "accOK (twoDigitHour st) \<Longrightarrow> list_all (\<lambda>e. keyValue (snd e)) es
     \<Longrightarrow> accOK (twoDigitHour (keyDowns l divider st es))"
  by (induction es arbitrary: st) (auto simp: onKeyDown_accOK)


text \<open>
  C2. For every sequence of key-down events, the accumulator has length at most 2 and a
  numeric value below 24. A digit is appended by a further key-down only when the
  accumulator is non-empty or the digit is 0, 1 or 2; when the accumulator is "2", a digit
  of value 4 or more is not appended; typing "2" then "4" into an hour field leaves "2".
  The sequence starts from the empty accumulator of a fresh component.
\<close>

theorem twoDigitHour_invariant:
  assumes "list_all (\<lambda>e. keyValue (snd e)) es" and "keyValue key" and "twoDigitHour st = []"
  shows "let acc = twoDigitHour (keyDowns l divider st es);
             acc' = twoDigitHour (keyDowns l divider st (es @ [(input, key)]))
         in length acc \<le> 2 \<and> js_lt (Number acc) (Fin 24)
            \<and> ((\<exists>d. key = [d] \<and> isDigit d) \<and> acc' = acc @ key
                 \<longrightarrow> acc \<noteq> [] \<or> key \<in> set [''0'', ''1'', ''2''])
            \<and> (acc = ''2'' \<and> (\<exists>d. key = [d] \<and> isDigit d \<and> 4 \<le> digitValue d)
                 \<longrightarrow> acc' = ''2'')
            \<and> (isHourName (el_name (elem input))
                 \<longrightarrow> twoDigitHour (keyDowns l divider st [(input, ''2''), (input, ''4'')]) = ''2'')"
proof -
  have app: "keyDowns l divider st (es @ [(input, key)])
             = fst (onKeyDown l divider (keyDowns l divider st es) input key)" for es
    by (induction es arbitrary: st) auto
  have ok: "accOK (twoDigitHour (keyDowns l divider st es))"
    using assms by (simp add: keyDowns_accOK)
  have bound: "length (twoDigitHour (keyDowns l divider st es)) \<le> 2
               \<and> js_lt (Number (twoDigitHour (keyDowns l divider st es))) (Fin 24)"
    using ok by (rule accOK_bound)
  have only: "acc \<noteq> [] \<or> [d] \<in> set [''0'', ''1'', ''2'']"
    if "twoDigitHour (fst (onKeyDown l divider s input [d])) = acc @ [d]" "twoDigitHour s = acc"
    for s acc d
    using that by (auto simp: onKeyDown_def Let_def acceptedFirstDigitsForHour_def split: if_splits)
  have reject: "twoDigitHour (fst (onKeyDown l divider s input [d])) = ''2''"
    if "twoDigitHour s = ''2''" "isDigit d" "4 \<le> digitValue d" for s d
    using that
    by (auto simp: onKeyDown_def Let_def Number_single digit_not_ws)
  have two_four: "twoDigitHour (keyDowns l divider st [(input, ''2''), (input, ''4'')]) = ''2''"
    if "isHourName (el_name (elem input))"
    using that assms(3)
    by (simp add: onKeyDown_def Let_def isNumber_def Number_single isDigit_def isWhiteSpace_def
        digitValue_def acceptedFirstDigitsForHour_def)
  show ?thesis
    unfolding Let_def app using bound only reject two_four by blast
qed

theorem twoDigitHour_invariant_witness:
  "list_all (\<lambda>e. keyValue (snd e)) [(hourTarget ''hour12'' [] ''12'', ''2'')]
   \<and> keyValue ''4'' \<and> twoDigitHour emptyState = []
   \<and> twoDigitHour (keyDowns exampleLib (Some '':'') emptyState
        [(hourTarget ''hour12'' [] ''12'', ''2''), (hourTarget ''hour12'' [] ''12'', ''4'')]) = ''2''
   \<and> js_lt (Number ''2'') (Fin 24)"
  using twoDigitHour_invariant [of "[(hourTarget ''hour12'' [] ''12'', ''2'')]" "''4''" emptyState
      exampleLib "Some '':''" "hourTarget ''hour12'' [] ''12''"]
  by (simp add: keyValue_def emptyState_def hourTarget_def numberInput_def isHourName_def
      Number_single isWhiteSpace_def isDigit_def digitValue_def Let_def)

text \<open>
  C1. On a key-up whose key is the last key pressed and a digit, on a field that declares
  a non-empty \<open>max\<close>: focus goes to the next internal input (\<open>findInput\<close> to the right)
  exactly when, for an hour field, the accumulator is empty, or has length 2, or is
  numerically above \<open>max\<close>, or is at least as long as \<open>max\<close>; and for another field, when
  ten times the value is above \<open>max\<close> or the value is at least as long as \<open>max\<close>.
  Otherwise no element is focused. At the end of the row \<open>findInput\<close> finds nothing and
  focus stays.
\<close>

theorem onKeyUp_advance:
  assumes "lastPressedKey st = Some [c]" and "isDigit c"
    and "el_max (elem input) = Some maxAttr" and "maxAttr \<noteq> []"
  shows "let acc = twoDigitHour st; v = el_value (elem input);
             advance =
               (if el_name (elem input) = ''hour12'' \<or> el_name (elem input) = ''hour24''
                then acc = [] \<or> length acc = 2 \<or> js_gt (Number acc) (Number maxAttr)
                     \<or> length maxAttr \<le> length acc
                else js_gt (js_times (Number v) (Fin 10)) (Number maxAttr)
                     \<or> length maxAttr \<le> length v)
         in onKeyUp st input [c] = (if advance then findInput input nextElementSibling else None)
            \<and> (\<forall>e. findInput input nextElementSibling = Some e
                   \<longrightarrow> (onKeyUp st input [c] = Some e) = advance)"
  using assms
  by (auto simp: onKeyUp_def shouldAdvance_def isHourName_def isNumber_def Number_single
      digit_not_ws focus_def Let_def)

theorem onKeyUp_advance_witness:
  "lastPressedKey (emptyState\<lparr>lastPressedKey := Some ''4''\<rparr>) = Some ''4'' \<and> isDigit CHR ''4''
   \<and> el_max (elem (hourTarget ''hour12'' ''4'' ''12'')) = Some ''12'' \<and> ''12'' \<noteq> []
   \<and> onKeyUp (emptyState\<lparr>lastPressedKey := Some ''4''\<rparr>) (hourTarget ''hour12'' ''4'' ''12'') ''4''
      = Some (numberInput ''minute'' [] ''59'')
   \<and> onKeyUp (emptyState\<lparr>lastPressedKey := Some ''1'', twoDigitHour := ''1''\<rparr>)
        (hourTarget ''hour12'' ''1'' ''12'') ''1'' = None"
  using onKeyUp_advance [of "emptyState\<lparr>lastPressedKey := Some ''4''\<rparr>" "CHR ''4''"
      "hourTarget ''hour12'' ''4'' ''12''" "''12''"]
    onKeyUp_advance [of "emptyState\<lparr>lastPressedKey := Some ''1'', twoDigitHour := ''1''\<rparr>" "CHR ''1''"
      "hourTarget ''hour12'' ''1'' ''12''" "''12''"]
  by (simp add: emptyState_def hourTarget_def numberInput_def dividerSpan_def isDigit_def
      findInput_def isInternalInput_def Number_values Number_empty js_gt_def Let_def)

subsection \<open>Reconciliation\<close>

text \<open>
  Whatever the overrides, the elements checked for emptiness are among the numeric
  inputs, so a form whose numeric inputs are all empty commits \<open>null\<close>.
\<close>

lemma formElementsWithoutSelect_subset:
  "set (formElementsWithoutSelect r ao ho)
     \<subseteq> set (List.map_filter id [hour12Input r, hour24Input r, minuteInput r, secondInput r])"
  by (cases "amPmInput r"; cases "hour12Input r"; cases "hour24Input r"; cases "minuteInput r";
      cases "secondInput r")
     (auto simp: formElementsWithoutSelect_def formElements_def List.map_filter_simps)

lemma all_empty_notifies_null:
  assumes "onChangeProps p"
    and "list_all (\<lambda>e. el_value e = [])
           (List.map_filter id [hour12Input r, hour24Input r, minuteInput r, secondInput r])"
  shows "onChangeExternal l p r acc ao ho = [OnChange None False]"
proof -
  have "isEveryValueEmpty r ao ho"
    unfolding isEveryValueEmpty_def list_all_iff
    using assms(2) formElementsWithoutSelect_subset [of r ao ho]
    by (auto simp: list_all_iff)
  with assms(1) show ?thesis by (simp add: onChangeExternal_def)
qed

lemmas eval_simps =
  setValue_def setElement_def onChange_def onChangeExternal_def isEveryValueEmpty_def
  isEveryValueFilled_def isEveryValueValid_def formElementsWithoutSelect_def formElements_def
  List.map_filter_simps form12_def form24_def testProps_def shownState_def numberInput_def
  amPmSelect_def Let_def Number_def trim_def js_gt_def isWhiteSpace_def

text \<open>
  C3. Clearing all fields one by one from a populated form at granularity second should
  notify \<open>onChange(null, false)\<close> exactly once, at the end. In the 24-hour layout no
  meridiem selector is rendered, and \<open>formElements.slice(1)\<close> drops the hour24 input from
  the emptiness check instead: clearing minute, then second, then hour notifies
  \<open>onChange(null, false)\<close> after the second clearing, while the hour is still 22, and again
  after the third.
\<close>

theorem clear_form24_notifies_twice:
  "fireChanges l testProps shownState form24
     [(''minute'', [], True), (''second'', [], True), (''hour24'', [], True)]
   = [OnChange None False, OnChange None False]"
  by (simp add: eval_simps)

text \<open>
  With the selector rendered (the 12-hour layout) every order of clearing notifies once.
\<close>

lemma clear_form12_notifies_once:
  "fireChanges l testProps shownState form12
     [(''hour12'', [], True), (''minute'', [], True), (''second'', [], True)] = [OnChange None False]"
  "fireChanges l testProps shownState form12
     [(''hour12'', [], True), (''second'', [], True), (''minute'', [], True)] = [OnChange None False]"
  "fireChanges l testProps shownState form12
     [(''minute'', [], True), (''hour12'', [], True), (''second'', [], True)] = [OnChange None False]"
  "fireChanges l testProps shownState form12
     [(''minute'', [], True), (''second'', [], True), (''hour12'', [], True)] = [OnChange None False]"
  "fireChanges l testProps shownState form12
     [(''second'', [], True), (''hour12'', [], True), (''minute'', [], True)] = [OnChange None False]"
  "fireChanges l testProps shownState form12
     [(''second'', [], True), (''minute'', [], True), (''hour12'', [], True)] = [OnChange None False]"
  by (simp_all add: eval_simps)

text \<open>
  C4, as stated, fails twice over. With only the meridiem selector rendered (format "a")
  and the external value 00:00, every element is filled and valid and the composed value
  is the external one, yet \<open>onChange(null, false)\<close> is notified: the form counts as
  all-empty. And with the external value left at 22:17:03, two edits that compose
  22:18:03 both notify it.
\<close>

theorem same_value_notified_twice:
  "isEveryValueFilled (formA ''am'') None None \<and> isEveryValueValid (formA ''am'') None None
   \<and> valueProps midnightProps
       = VString (getProcessedValue exampleLib midnightProps
                    (proposedValue exampleLib (formA ''am'') [] None None))
   \<and> onChangeExternal exampleLib midnightProps (formA ''am'') [] None None = [OnChange None False]
   \<and> fireChanges exampleLib testProps shownState form12
        [(''minute'', ''18'', True), (''second'', ''03'', True)]
      = [OnChange (Some ''22:18:03'') False, OnChange (Some ''22:18:03'') False]"
  by code_simp

text \<open>
  C4, amended. When the form does not count as all-empty and every form element is filled
  and valid, reconciliation compares the composed value, processed to the configured
  granularity, with the external value: if they are equal nothing is notified, and
  otherwise \<open>onChange\<close> is notified with the composed value. The comparison is with the
  external value only, so a composed value is notified again until the external value
  has been updated to it.
\<close>

theorem unchanged_value_suppressed:
  assumes "isEveryValueFilled r amPmOverride hourOverride"
    and "isEveryValueValid r amPmOverride hourOverride"
    and "\<not> isEveryValueEmpty r amPmOverride hourOverride"
  shows "let v = getProcessedValue l p (proposedValue l r acc amPmOverride hourOverride);
             notified = onChangeExternal l p r acc amPmOverride hourOverride
         in (valueProps p = VString v \<longrightarrow> notified = [])
            \<and> (valueProps p \<noteq> VString v \<and> onChangeProps p
                 \<longrightarrow> notified = [OnChange (Some v) False])
            \<and> onChangeExternal l (p\<lparr>valueProps := VString v\<rparr>) r acc amPmOverride hourOverride
                = []"
  using assms by (auto simp: onChangeExternal_def getProcessedValue_def Let_def)

theorem unchanged_value_suppressed_witness:
  "isEveryValueFilled form12 None None \<and> isEveryValueValid form12 None None
   \<and> \<not> isEveryValueEmpty form12 None None
   \<and> valueProps testProps
       = VString (getProcessedValue exampleLib testProps (proposedValue exampleLib form12 [] None None))
   \<and> onChangeExternal exampleLib testProps form12 [] None None = []"
proof -
  have filled: "isEveryValueFilled form12 None None"
    by (simp add: isEveryValueFilled_def formElements_def List.map_filter_simps form12_def
        numberInput_def amPmSelect_def)
  have valid: "isEveryValueValid form12 None None"
    by (simp add: isEveryValueValid_def formElements_def List.map_filter_simps form12_def
        numberInput_def amPmSelect_def)
  have nonempty: "\<not> isEveryValueEmpty form12 None None"
    by (simp add: isEveryValueEmpty_def formElementsWithoutSelect_def formElements_def
        List.map_filter_simps form12_def numberInput_def amPmSelect_def)
  have same: "valueProps testProps
       = VString (getProcessedValue exampleLib testProps (proposedValue exampleLib form12 [] None None))"
    by code_simp
  from unchanged_value_suppressed [OF filled valid nonempty, of exampleLib testProps "[]"]
    filled valid nonempty same
  show ?thesis by (simp add: Let_def)
qed

text \<open>
  C6. Without a meridiem override, the resolved meridiem is the value of the selector when
  that is present (truthy); when it is absent, the result is "pm" exactly when the
  accumulator parses to a number greater than 12, and otherwise it stays the absent
  selector value.
\<close>

theorem amPmValue_resolution:
  assumes "\<not> truthy_str amPmOverride"
  shows "(truthy_opt selected \<longrightarrow> amPmValue amPmOverride selected acc = selected)
     \<and> (\<not> truthy_opt selected
          \<longrightarrow> (amPmValue amPmOverride selected acc = Some (Str ''pm''))
               = js_gt (Number acc) (Fin 12))
     \<and> (\<not> truthy_opt selected \<and> \<not> js_gt (Number acc) (Fin 12)
          \<longrightarrow> amPmValue amPmOverride selected acc = selected)"
  using assms by (auto simp: amPmValue_def)

theorem amPmValue_resolution_witness:
  "\<not> truthy_str None \<and> amPmValue None (Some (Str [])) ''13'' = Some (Str ''pm'')
   \<and> amPmValue None (Some (Str ''am'')) ''13'' = Some (Str ''am'')
   \<and> amPmValue None None ''08'' = None"
  using amPmValue_resolution [of None "Some (Str [])" "''13''"]
    amPmValue_resolution [of None "Some (Str ''am'')" "''13''"]
    amPmValue_resolution [of None None "''08''"]
  by (simp add: Number_values js_gt_def)

text \<open>
  C8, as stated, fails: the rejected change is not silent. With 24 typed into the hour
  field of the 12-hour form, and the input flagged invalid by the browser,
  reconciliation still runs and calls \<open>onInvalidChange\<close>.
\<close>

theorem rejected_hour_signals_invalid:
  "js_gt (Number ''24'') (Fin 23)
   \<and> onChange exampleLib (testProps\<lparr>onInvalidChange := True\<rparr>)
        (setValue form12 ''hour12'' ''24'' False) shownState ''hour12'' ''24''
      = (shownState, [OnInvalidChange])"
  by code_simp

text \<open>
  C8, amended. A change event on an hour field (hour12 or hour24) whose value is
  numerically above 23 leaves the whole state as it was: the hour, every other field,
  the accumulator; the handler throws nothing. Reconciliation still runs on the form as
  it stands: when the form holds an invalid element (the browser flags a value above
  \<open>max\<close>) and does not count as all-empty, no value is committed, and \<open>onInvalidChange\<close>
  is called if both callbacks are supplied.
\<close>

theorem hour_above_23_rejected:
  assumes "js_gt (Number v) (Fin 23)" and "name = ''hour12'' \<or> name = ''hour24''"
  shows "fst (onChange l p r st name v) = st
         \<and> (\<not> isEveryValueValid r None None \<and> \<not> isEveryValueEmpty r None None
              \<longrightarrow> snd (onChange l p r st name v)
                  = (if onChangeProps p \<and> onInvalidChange p then [OnInvalidChange] else []))"
  using assms by (auto simp: onChange_def onChangeExternal_def)

theorem hour_above_23_rejected_witness:
  "js_gt (Number ''24'') (Fin 23) \<and> (''hour24'' = ''hour12'' \<or> ''hour24'' = ''hour24'')
   \<and> \<not> isEveryValueValid (setValue form24 ''hour24'' ''24'' False) None None
   \<and> \<not> isEveryValueEmpty (setValue form24 ''hour24'' ''24'' False) None None
   \<and> onChange exampleLib testProps (setValue form24 ''hour24'' ''24'' False) shownState
        ''hour24'' ''24'' = (shownState, [])"
proof -
  have above: "js_gt (Number ''24'') (Fin 23)"
    by (simp add: Number_values js_gt_def)
  have invalid: "\<not> isEveryValueValid (setValue form24 ''hour24'' ''24'' False) None None"
    by (simp add: isEveryValueValid_def formElements_def List.map_filter_simps form24_def
        numberInput_def setValue_def setElement_def)
  have nonempty: "\<not> isEveryValueEmpty (setValue form24 ''hour24'' ''24'' False) None None"
    by (simp add: isEveryValueEmpty_def formElementsWithoutSelect_def formElements_def
        List.map_filter_simps form24_def numberInput_def setValue_def setElement_def)
  from hour_above_23_rejected [OF above, of "''hour24''" exampleLib testProps
      "setValue form24 ''hour24'' ''24'' False" shownState]
    above invalid nonempty
  show ?thesis by (simp add: testProps_def prod_eq_iff)
qed

text \<open>
  C9. When no numeric input is rendered (format "a": only the meridiem selector), every
  reconciliation with an \<open>onChange\<close> callback notifies \<open>onChange(null, false)\<close>, whatever
  the selected meridiem and the overrides: the emptiness check ranges over no element.
\<close>

theorem no_numeric_fields_always_null:
  assumes "onChangeProps p"
    and "hour12Input r = None" and "hour24Input r = None"
    and "minuteInput r = None" and "secondInput r = None"
  shows "onChangeExternal l p r acc amPmOverride hourOverride = [OnChange None False]
         \<and> snd (onChange l p r st name v) = [OnChange None False]"
  using assms
  by (cases "amPmInput r")
     (auto simp: onChange_def onChangeExternal_def isEveryValueEmpty_def
        formElementsWithoutSelect_def formElements_def List.map_filter_simps)

theorem no_numeric_fields_always_null_witness:
  "onChangeProps testProps \<and> hour12Input (formA ''pm'') = None \<and> hour24Input (formA ''pm'') = None
   \<and> minuteInput (formA ''pm'') = None \<and> secondInput (formA ''pm'') = None
   \<and> onChangeExternal exampleLib testProps (formA ''pm'') [] None None = [OnChange None False]"
  using no_numeric_fields_always_null [of testProps "formA ''pm''" exampleLib "[]" None None]
  by (simp add: testProps_def formA_def)

text \<open>
  C10. When the form is classified as all-empty, \<open>onChange(null, false)\<close> is notified
  whatever the external value is, \<open>null\<close> and the empty string included; the external
  value is consulted only on the branch where all fields are filled and valid.
\<close>

theorem null_commit_not_deduplicated:
  assumes "onChangeProps p"
  shows "(isEveryValueEmpty r amPmOverride hourOverride
           \<longrightarrow> onChangeExternal l (p\<lparr>valueProps := ext\<rparr>) r acc amPmOverride hourOverride
               = [OnChange None False])
     \<and> (isEveryValueEmpty r amPmOverride hourOverride
          \<or> \<not> (isEveryValueFilled r amPmOverride hourOverride
                 \<and> isEveryValueValid r amPmOverride hourOverride)
           \<longrightarrow> onChangeExternal l (p\<lparr>valueProps := ext\<rparr>) r acc amPmOverride hourOverride
               = onChangeExternal l p r acc amPmOverride hourOverride)"
  using assms by (auto simp: onChangeExternal_def)


theorem null_commit_not_deduplicated_witness:
  "onChangeProps testProps \<and> isEveryValueEmpty emptyForm12 None None
   \<and> onChangeExternal exampleLib (testProps\<lparr>valueProps := VNull\<rparr>) emptyForm12 [] None None
       = [OnChange None False]"
proof -
  have p: "onChangeProps testProps" by (simp add: testProps_def)
  have e: "isEveryValueEmpty emptyForm12 None None"
    by (simp add: isEveryValueEmpty_def formElementsWithoutSelect_def formElements_def
        List.map_filter_simps emptyForm12_def numberInput_def amPmSelect_def)
  from null_commit_not_deduplicated [OF p, of emptyForm12 None None exampleLib VNull "[]"] p e
  show ?thesis by simp
qed


subsection \<open>Rendering a format\<close>

lemma longRun_iff: "longRun t = (\<exists>d n. d \<in> set ''hHms'' \<and> 2 < n \<and> t = replicate n d)"
proof
  assume "longRun t"
  then obtain d ds where t: "t = d # ds" "d \<in> set ''hHms''" "2 < length t" "\<forall>x \<in> set ds. x = d"
    by (auto simp: longRun_def list_all_iff split: list.splits)
  then have "ds = replicate (length ds) d" by (simp add: replicate_length_same)
  with t have "t = replicate (Suc (length ds)) d" by simp
  with t(2,3) show "\<exists>d n. d \<in> set ''hHms'' \<and> 2 < n \<and> t = replicate n d"
    by (metis length_replicate)
next
  assume "\<exists>d n. d \<in> set ''hHms'' \<and> 2 < n \<and> t = replicate n d"
  then obtain d n where "d \<in> set ''hHms''" "2 < n" "t = replicate n d" by blast
  then show "longRun t"
    by (cases n) (auto simp: longRun_def list_all_iff)
qed

lemma takeWhile_same: "takeWhile (\<lambda>d. d = c) xs = replicate (length (takeWhile (\<lambda>d. d = c) xs)) c"
  by (induction xs) auto

lemma lookupRender_run:
  assumes "d \<in> set ''hHms''" and "0 < n"
  shows "lookupRender (replicate n d) = map_of elementFunctions d"
proof (cases "n = 1")
  case True
  with assms(1) show ?thesis
    by (auto simp: lookupRender_def elementFunctions_def)
next
  case False
  with assms(2) have "length (replicate n d) \<noteq> 1" by simp
  then have ne: "replicate n d \<noteq> [k]" for k by (auto dest: arg_cong [where f = length])
  from assms show ?thesis
    by (auto simp: lookupRender_def elementFunctions_def ne)
qed

lemma callRender_longRun:
  assumes "longRun t" and "lookupRender t = Some f"
  shows "callRender f autoFocus t index = Inl (unsupported t)"
proof -
  from assms(1) obtain d n where d: "d \<in> set ''hHms''" "2 < n" "t = replicate n d"
    by (auto simp: longRun_iff)
  then have "map_of elementFunctions d = Some f"
    using assms(2) lookupRender_run [of d n] by simp
  with d show ?thesis
    by (auto simp: elementFunctions_def renderHourF_def renderHour12F_def renderHour24F_def
        renderMinuteF_def renderSecondF_def split: if_splits)
qed

lemma lookupRender_longRun: "longRun t \<Longrightarrow> lookupRender t \<noteq> None"
  by (auto simp: longRun_iff lookupRender_run elementFunctions_def)

lemma callRender_error:
  "callRender f autoFocus t index = Inl e \<Longrightarrow> e = unsupported t \<and> 2 < length t"
  by (cases f)
     (auto simp: renderHourF_def renderHour12F_def renderHour24F_def renderMinuteF_def
        renderSecondF_def renderAmPmF_def split: if_splits)

lemma renderLoop_longRun:
  assumes "\<exists>e t. (e, t) \<in> set ps \<and> longRun t"
  shows "\<exists>t. 2 < length t
           \<and> renderLoop autoFocus True index usedFunctions arr ps lastPiece = Inl (unsupported t)"
  using assms
proof (induction ps arbitrary: index usedFunctions arr)
  case Nil
  then show ?case by simp
next
  case (Cons p ps)
  obtain element currentMatch where p: "p = (element, currentMatch)" by (cases p)
  show ?case
  proof (cases "lookupRender currentMatch")
    case None
    then have "\<not> longRun currentMatch" using lookupRender_longRun by blast
    with Cons.prems p have "\<exists>e t. (e, t) \<in> set ps \<and> longRun t" by auto
    from Cons.IH [OF this] None p show ?thesis by simp
  next
    case (Some f)
    show ?thesis
    proof (cases "callRender f autoFocus currentMatch index")
      case (Inl e)
      with callRender_error have "e = unsupported currentMatch" "2 < length currentMatch"
        by blast+
      with Some Inl p show ?thesis by auto
    next
      case (Inr n)
      then have "\<not> longRun currentMatch"
        using callRender_longRun [of currentMatch f autoFocus index] Some by auto
      with Cons.prems p have "\<exists>e t. (e, t) \<in> set ps \<and> longRun t" by auto
      from Cons.IH [OF this] Some Inr p show ?thesis by simp
    qed
  qed
qed

lemma splitMatches_longRun:
  assumes "c \<in> set ''hHms''"
  shows "\<exists>e t. (e, t) \<in> set (fst (splitMatches piece (pre @ [c, c, c] @ post))) \<and> longRun t"
proof (induction "length pre" arbitrary: pre piece rule: less_induct)
  case less
  have key: "c \<in> set (map fst elementFunctions)"
    using assms by (auto simp: elementFunctions_def)
  show ?case
  proof (cases pre)
    case Nil
    let ?run = "c # takeWhile (\<lambda>d. d = c) ([c, c] @ post)"
    have "?run = replicate (Suc (length (takeWhile (\<lambda>d. d = c) ([c, c] @ post)))) c"
      using takeWhile_same [of c "[c, c] @ post"] by simp
    moreover have "2 < Suc (length (takeWhile (\<lambda>d. d = c) ([c, c] @ post)))" by simp
    ultimately have "longRun ?run" using assms unfolding longRun_iff by blast
    with Nil key show ?thesis
      by (auto split: prod.splits)
  next
    case (Cons p pre')
    show ?thesis
    proof (cases "p \<in> set (map fst elementFunctions)")
      case False
      have "length pre' < length pre" using Cons by simp
      from less [OF this, of "piece @ [p]"] Cons False show ?thesis by simp
    next
      case True
      let ?rest = "pre' @ [c, c, c] @ post"
      show ?thesis
      proof (cases "p = c \<and> (\<forall>x \<in> set pre'. x = c)")
        case True
        let ?tw = "takeWhile (\<lambda>d. d = c) ?rest"
        have "?tw = pre' @ takeWhile (\<lambda>d. d = c) ([c, c, c] @ post)"
          using True by (simp add: takeWhile_append)
        then have len: "2 < Suc (length ?tw)" by simp
        have "c # ?tw = replicate (Suc (length ?tw)) c"
          using takeWhile_same [of c ?rest] by simp
        with len have "longRun (c # ?tw)" using assms unfolding longRun_iff by blast
        with Cons True key show ?thesis by (auto split: prod.splits)
      next
        case False
        have "dropWhile (\<lambda>d. d = p) ?rest = dropWhile (\<lambda>d. d = p) pre' @ [c, c, c] @ post"
        proof (cases "\<forall>x \<in> set pre'. x = p")
          case True
          with False have "p \<noteq> c" by auto
          with True show ?thesis by (simp add: dropWhile_append)
        next
          case False
          then show ?thesis by (auto simp: dropWhile_append)
        qed
        moreover have "length (dropWhile (\<lambda>d. d = p) pre') < length pre"
          using Cons length_dropWhile_le [of "\<lambda>d. d = p" pre'] by simp
        ultimately obtain e t where
          et: "(e, t) \<in> set (fst (splitMatches [] (dropWhile (\<lambda>d. d = p) ?rest)))" "longRun t"
          using less [of "dropWhile (\<lambda>d. d = p) pre'" "[]"] by auto
        obtain ps' lastPiece where
          sm: "splitMatches [] (dropWhile (\<lambda>d. d = p) ?rest) = (ps', lastPiece)"
          by (cases "splitMatches [] (dropWhile (\<lambda>d. d = p) ?rest)")
        with et have "(e, t) \<in> set ps'" by simp
        moreover have "fst (splitMatches piece (pre @ [c, c, c] @ post))
                       = (piece, p # takeWhile (\<lambda>d. d = p) ?rest) # ps'"
          using Cons \<open>p \<in> set (map fst elementFunctions)\<close> sm by simp
        ultimately show ?thesis using et(2) by force
      qed
    qed
  qed
qed

text \<open>
  C7. Rendering an explicit format that contains a numeric field letter (h, H, m or s)
  three times in a row fails with the error "Unsupported token: ..." for a token of more
  than two letters; the error leaves \<open>renderCustomInputs\<close> and nothing is rendered. For
  the formats hhh, HHH, mmm and sss the token of the message is the format itself.
\<close>

theorem unsupported_token:
  assumes "c \<in> set ''hHms''"
  shows "(\<exists>t. 2 < length t
            \<and> renderCustomInputsInternal (Some (pre @ [c, c, c] @ post)) derived autoFocus
                = Inl (Error (''Unsupported token: '' @ t)))
         \<and> renderCustomInputsInternal (Some [c, c, c]) derived autoFocus
             = Inl (Error (''Unsupported token: '' @ [c, c, c]))"
proof -
  obtain ps lastPiece where sm: "splitMatches [] (pre @ [c, c, c] @ post) = (ps, lastPiece)"
    by (cases "splitMatches [] (pre @ [c, c, c] @ post)")
  with splitMatches_longRun [OF assms, of "[]" pre post]
  have "\<exists>e t. (e, t) \<in> set ps \<and> longRun t" by simp
  from renderLoop_longRun [OF this, of autoFocus 0 "[]" "[]" lastPiece] sm
  have general: "\<exists>t. 2 < length t
            \<and> renderCustomInputsInternal (Some (pre @ [c, c, c] @ post)) derived autoFocus
                = Inl (Error (''Unsupported token: '' @ t))"
    by (simp add: renderCustomInputsInternal_def renderCustomInputs_def unsupported_def)
  have "renderCustomInputsInternal (Some [c, c, c]) derived autoFocus
             = Inl (Error (''Unsupported token: '' @ [c, c, c]))"
    using assms
    by (auto simp: renderCustomInputsInternal_def renderCustomInputs_def elementFunctions_def
        lookupRender_def renderHourF_def renderHour12F_def renderHour24F_def renderMinuteF_def
        renderSecondF_def unsupported_def)
  with general show ?thesis by blast
qed

theorem unsupported_token_witness:
  "CHR ''m'' \<in> set ''hHms''
   \<and> renderCustomInputsInternal (Some ''mmm'') ''h:mm a'' False
       = Inl (Error ''Unsupported token: mmm'')"
  using unsupported_token [of "CHR ''m''" "[]" "[]" "''h:mm a''" False] by simp

end
